theory Spec2Isabelle
  imports Complex_Main "HOL-Library.Word" "HOL-Library.Multiset"
begin

section \<open>QHI-Probe: the three-probe scoring core\<close>

text \<open>
  A shallow embedding of \<^verbatim>\<open>_internals.py\<close>.  Python floats and numpy arrays are
  idealised as \<^typ>\<open>real\<close> and \<^typ>\<open>real list\<close>: NaN and infinities are outside the
  model, and so is rounding, with one exception.  The mean over the entity vectors is a
  running float32 sum in list order, the one computation whose order of operations the
  input chooses; there every float32 addition and the final division round (\<open>fl32\<close>).
  Python strings are \<^typ>\<open>string\<close>; the case mapping is the ASCII one.
  Exceptions are values of \<open>error + 'a\<close>; every mutation of an object is explicit state
  passing.  What scikit-learn, numpy's generator, hashlib and the clock compute is not
  code of this repository: it is taken as a parameter (the record \<open>lib\<close> below).
\<close>

subsection \<open>Exceptions\<close>

datatype error =
    ValueError string
  | ZeroDivisionError
  | IndexError
  | TypeError
  | LibraryError string

text \<open>\<^verbatim>\<open>except ValueError\<close> catches a \<open>ValueError\<close> only.\<close>

fun is_ValueError :: "error \<Rightarrow> bool" where
  "is_ValueError (ValueError m) = True"
| "is_ValueError e = False"

subsection \<open>numpy on vectors\<close>

text \<open>\<^verbatim>\<open>np.clip(a, a_min, a_max)\<close> is \<^verbatim>\<open>minimum(a_max, maximum(a, a_min))\<close>.\<close>

definition clip :: "real \<Rightarrow> real \<Rightarrow> real \<Rightarrow> real" where
  "clip a a_min a_max = min a_max (max a a_min)"

text \<open>\<^verbatim>\<open>np.dot\<close> of two one-dimensional arrays raises on a length mismatch.\<close>

definition np_dot :: "real list \<Rightarrow> real list \<Rightarrow> error + real" where
  "np_dot a b =
     (if length a = length b then Inr (sum_list (map2 (*) a b))
      else Inl (ValueError ''shapes not aligned''))"

text \<open>\<^verbatim>\<open>a[idx]\<close> with an integer index array raises when an index is out of bounds.\<close>

definition np_take :: "real list \<Rightarrow> nat list \<Rightarrow> error + real list" where
  "np_take a idx =
     (if list_all (\<lambda>i. i < length a) idx then Inr (map ((!) a) idx) else Inl IndexError)"

text \<open>\<^verbatim>\<open>np.nonzero(w)[0]\<close>: the indices of the nonzero entries, ascending.\<close>

definition np_nonzero :: "real list \<Rightarrow> nat list" where
  "np_nonzero w = filter (\<lambda>i. w ! i \<noteq> 0) [0..<length w]"

text \<open>The expression \<^verbatim>\<open>1.0 / (1.0 + np.exp(-np.clip(logit, -500, 500)))\<close> of all three
  \<^verbatim>\<open>predict\<close> methods.\<close>

definition sigmoid_clipped :: "real \<Rightarrow> real" where
  "sigmoid_clipped logit = 1 / (1 + exp (- clip logit (-500) 500))"

text \<open>\<^verbatim>\<open>np.mean\<close> of a one-dimensional array (of an empty one it is NaN, which the
  model does not have: no call below reaches it with an empty array and returns).\<close>

definition np_mean :: "real list \<Rightarrow> real" where
  "np_mean xs = sum_list xs / real (length xs)"

subsection \<open>float32 rounding\<close>

text \<open>Rounding of a real to the nearest integer, ties to the even one.\<close>

definition rne :: "real \<Rightarrow> int" where
  "rne q =
     (let f = \<lfloor>q\<rfloor>; d = q - of_int f
      in if d < 1 / 2 then f else if 1 / 2 < d then f + 1 else if even f then f else f + 1)"

text \<open>IEEE 754 binary32, round to nearest even: a nonzero \<open>x\<close> with
  \<open>2\<^sup>e \<le> \<bar>x\<bar> < 2\<^sup>e\<^sup>+\<^sup>1\<close> is rounded to a multiple of \<open>2\<^sup>e\<^sup>-\<^sup>2\<^sup>3\<close> (24 significant bits).  The
  exponent range is not bounded: overflow and underflow are outside the model.\<close>

definition fl32 :: "real \<Rightarrow> real" where
  "fl32 x =
     (if x = 0 then 0
      else (let e = \<lfloor>log 2 \<bar>x\<bar>\<rfloor>; u = 2 powr (of_int e - 23)
            in of_int (rne (x / u)) * u))"

text \<open>\<^verbatim>\<open>np.add.reduce\<close> of a float32 column, top to bottom: the accumulator takes the
  first entry (adding it to the initial zero is exact) and each further addition rounds.\<close>

definition f32_sum :: "real list \<Rightarrow> real" where
  "f32_sum col = (case col of [] \<Rightarrow> 0 | a # rest \<Rightarrow> foldl (\<lambda>acc v. fl32 (acc + v)) a rest)"

text \<open>\<^verbatim>\<open>mean\<close> of a float32 column: the float32 sum divided by the count, in float32.\<close>

definition f32_mean :: "real list \<Rightarrow> real" where
  "f32_mean col = fl32 (f32_sum col / real (length col))"

subsection \<open>Strings\<close>

text \<open>The decimal numeral that an f-string prints for a non-negative integer.\<close>

fun str_of_nat :: "nat \<Rightarrow> string" where
  "str_of_nat n =
     (if n < 10 then [''0123456789'' ! n]
      else str_of_nat (n div 10) @ [''0123456789'' ! (n mod 10)])"

text \<open>\<^verbatim>\<open>str.lower\<close> on ASCII text: the 26 capital letters go to their small forms.\<close>

definition lower_char :: "char \<Rightarrow> char" where
  "lower_char c =
     (case map_of (zip ''ABCDEFGHIJKLMNOPQRSTUVWXYZ'' ''abcdefghijklmnopqrstuvwxyz'') c of
        Some d \<Rightarrow> d
      | None \<Rightarrow> c)"

definition lower :: "string \<Rightarrow> string" where
  "lower s = map lower_char s"

subsection \<open>The specialty risk table\<close>

definition SPECIALTY_RISK_MAP :: "(string \<times> real) list" where
  "SPECIALTY_RISK_MAP =
    [(''emergency'', 5.0), (''anesthesiology'', 4.8), (''toxicology'', 4.7),
     (''critical_care'', 4.9), (''cardiology'', 4.6), (''neurosurgery'', 4.8),
     (''nephrology'', 4.2), (''pulmonology'', 4.0), (''oncology'', 4.3),
     (''hematology'', 3.8), (''infectious_disease'', 3.9), (''surgery'', 4.1),
     (''endocrinology'', 3.7), (''gastroenterology'', 3.6),
     (''internal_medicine'', 3.2), (''neurology'', 3.5), (''rheumatology'', 3.0),
     (''pediatrics'', 3.8), (''obstetrics'', 3.9), (''urology'', 2.8),
     (''dermatology'', 2.3), (''psychiatry'', 2.5), (''ophthalmology'', 2.2),
     (''preventive'', 1.8), (''rehabilitation'', 1.5), (''general'', 2.0)]"

text \<open>\<^verbatim>\<open>SPECIALTY_RISK_MAP.get(key, default)\<close>.\<close>

definition risk_get :: "string \<Rightarrow> real \<Rightarrow> real" where
  "risk_get key dflt = (case map_of SPECIALTY_RISK_MAP key of Some v \<Rightarrow> v | None \<Rightarrow> dflt)"

subsection \<open>Probe state\<close>

record ProbeC =
  c_C :: real
  c_weights :: "real list option"
  c_bias :: real
  c_trained :: bool

text \<open>The \<^verbatim>\<open>model\<close> field of Probe-R holds an \<^verbatim>\<open>MLPRegressor\<close>: unfitted between its
  construction and a successful \<^verbatim>\<open>fit\<close>; a fitted one offers \<^verbatim>\<open>predict\<close> and
  \<^verbatim>\<open>score\<close> (scikit-learn's, taken as given).\<close>

record mlp_fitted =
  mlp_predict :: "real list list \<Rightarrow> real list"
  mlp_score :: "real list list \<Rightarrow> real list \<Rightarrow> real"

datatype mlp = Unfitted | Fitted mlp_fitted

record ProbeR =
  r_model :: "mlp option"
  r_trained :: bool

record ProbeV =
  v_C :: real
  v_weights :: "real list option"
  v_bias :: real
  v_trained :: bool
  v_nonzero_mask :: "nat list option"

definition ProbeC_init :: "real \<Rightarrow> ProbeC" where
  "ProbeC_init C = \<lparr>c_C = C, c_weights = None, c_bias = 0, c_trained = False\<rparr>"

definition ProbeR_init :: ProbeR where
  "ProbeR_init = \<lparr>r_model = None, r_trained = False\<rparr>"

definition ProbeV_init :: "real \<Rightarrow> ProbeV" where
  "ProbeV_init C =
     \<lparr>v_C = C, v_weights = None, v_bias = 0, v_trained = False, v_nonzero_mask = None\<rparr>"

subsection \<open>Probe inference\<close>

definition ProbeC_predict :: "ProbeC \<Rightarrow> real list \<Rightarrow> error + real" where
  "ProbeC_predict p x =
     (if \<not> c_trained p then Inr 0.5
      else case c_weights p of
             None \<Rightarrow> Inl TypeError
           | Some w \<Rightarrow>
               (case np_dot w x of
                  Inl e \<Rightarrow> Inl e
                | Inr d \<Rightarrow> Inr (sigmoid_clipped (d + c_bias p))))"

definition ProbeR_predict :: "ProbeR \<Rightarrow> real list \<Rightarrow> string \<Rightarrow> error + real" where
  "ProbeR_predict p x specialty =
     (if r_trained p \<and> r_model p \<noteq> None then
        (case r_model p of
           Some (Fitted m) \<Rightarrow>
             (case mlp_predict m [x] of
                [] \<Rightarrow> Inl IndexError
              | raw # _ \<Rightarrow> Inr (clip raw 1.0 5.0))
         | _ \<Rightarrow> Inl (LibraryError ''NotFittedError''))
      else Inr (risk_get (lower specialty) 2.5))"

definition ProbeV_predict :: "ProbeV \<Rightarrow> real list \<Rightarrow> error + real" where
  "ProbeV_predict p x =
     (if \<not> v_trained p then Inr 0.5
      else case v_weights p of
             None \<Rightarrow> Inl TypeError
           | Some w \<Rightarrow>
               (case (case v_nonzero_mask p of
                        Some idx \<Rightarrow>
                          (if length idx < length x then
                             (case np_take w idx of
                                Inl e \<Rightarrow> Inl e
                              | Inr wm \<Rightarrow>
                                  (case np_take x idx of
                                     Inl e \<Rightarrow> Inl e
                                   | Inr xm \<Rightarrow> np_dot wm xm))
                           else np_dot w x)
                      | None \<Rightarrow> np_dot w x) of
                  Inl e \<Rightarrow> Inl e
                | Inr d \<Rightarrow> Inr (sigmoid_clipped (d + v_bias p))))"

text \<open>The dense computation, in the specification's words: the logistic sigmoid of
  \<open>weights \<cdot> x + bias\<close> with the logit clipped to \<open>\<plusminus>500\<close>.\<close>

definition dense_predict :: "real list \<Rightarrow> real \<Rightarrow> real list \<Rightarrow> real" where
  "dense_predict w b x = 1 / (1 + exp (- (max (-500) (min 500 ((\<Sum>i<length w. w ! i * x ! i) + b)))))"

subsection \<open>What the libraries supply\<close>

record lr_params =
  lr_C :: real
  lr_l1_ratio :: real
  lr_solver :: string
  lr_max_iter :: nat
  lr_random_state :: nat

text \<open>A fitted \<^verbatim>\<open>LogisticRegression\<close>: \<^verbatim>\<open>coef_[0]\<close>, \<^verbatim>\<open>intercept_[0]\<close>,
  \<^verbatim>\<open>predict_proba(X)[:, 1]\<close> and \<^verbatim>\<open>score(X, y)\<close>.\<close>

record lr_fitted =
  coef0 :: "real list"
  intercept0 :: real
  predict_proba1 :: "real list list \<Rightarrow> real list"
  lr_score :: "real list list \<Rightarrow> int list \<Rightarrow> real"

text \<open>
  \<open>sha256 s\<close> is \<^verbatim>\<open>hashlib.sha256(s.encode()).digest()\<close>;
  \<open>gauss seed k\<close> is the \<open>k\<close>-th normal draw of \<^verbatim>\<open>np.random.RandomState(seed)\<close>;
  \<open>perf_counter k\<close> is the \<open>k\<close>-th reading of \<^verbatim>\<open>time.perf_counter()\<close> in the process;
  the others are the scikit-learn, scipy and numpy functions of the same name, a raised
  exception being \<open>Inl\<close>.
\<close>

record lib =
  sha256 :: "string \<Rightarrow> 8 word list"
  gauss :: "nat \<Rightarrow> nat \<Rightarrow> real"
  perf_counter :: "nat \<Rightarrow> real"
  LogisticRegression_fit :: "lr_params \<Rightarrow> real list list \<Rightarrow> int list \<Rightarrow> error + lr_fitted"
  MLPRegressor_fit :: "real list list \<Rightarrow> real list \<Rightarrow> error + mlp_fitted"
  roc_auc_score :: "int list \<Rightarrow> real list \<Rightarrow> error + real"
  average_precision_score :: "int list \<Rightarrow> real list \<Rightarrow> error + real"
  f1_score :: "int list \<Rightarrow> int list \<Rightarrow> error + real"
  pearsonr :: "real list \<Rightarrow> real list \<Rightarrow> error + real"
  percentile :: "real list \<Rightarrow> real \<Rightarrow> error + real"

subsection \<open>Samples\<close>

record ClinicalSample =
  text_of :: string
  entities :: "string list"
  true_label :: int
  true_severity :: real
  specialty :: string
  model_name :: string

text \<open>The record is a sample after construction.  The constructor itself only fills in
  \<open>entities\<close> when it was given none:\<close>

text \<open>The closed vocabulary of \<^verbatim>\<open>_auto_extract_entities\<close>.\<close>

definition medical_terms :: "string list" where
  "medical_terms =
    [''stemi'', ''nstemi'', ''copd'', ''gerd'', ''dvt'', ''pe'', ''cad'', ''chf'',
     ''acs'', ''mi'', ''tia'', ''cva'', ''ards'', ''dic'', ''aki'', ''ckd'',
     ''sepsis'', ''anaphylaxis'', ''hyperkalemia'', ''hyponatremia'',
     ''pneumonia'', ''meningitis'', ''appendicitis'', ''pancreatitis'',
     ''epinephrine'', ''morphine'', ''aspirin'', ''heparin'', ''warfarin'',
     ''metformin'', ''insulin'', ''lisinopril'', ''amiodarone'',
     ''acetaminophen'', ''naloxone'', ''atropine'', ''dopamine'',
     ''norepinephrine'', ''nitroglycerin'', ''furosemide'', ''mannitol'',
     ''nac'', ''tpa'', ''alteplase'', ''clopidogrel'', ''enoxaparin'',
     ''spo2'', ''ecg'', ''ekg'', ''ct'', ''mri'', ''cbc'', ''bmp'', ''abg'',
     ''troponin'', ''bnp'', ''creatinine'', ''potassium'', ''sodium'',
     ''antacids'', ''charcoal'', ''diphenhydramine'', ''steroids'']"

text \<open>\<^verbatim>\<open>str.split()\<close> on ASCII text: the maximal runs of characters that are not white
  space (tab, line feed, vertical tab, form feed, carriage return, the four separators
  \<open>0x1C\<close> to \<open>0x1F\<close>, space).  The first argument is the word read so far.\<close>

definition is_space :: "char \<Rightarrow> bool" where
  "is_space c =
     (c \<in> set [CHR 0x09, CHR 0x0A, CHR 0x0B, CHR 0x0C, CHR 0x0D,
                CHR 0x1C, CHR 0x1D, CHR 0x1E, CHR 0x1F, CHR 0x20])"

fun split_from :: "string \<Rightarrow> string \<Rightarrow> string list" where
  "split_from cur [] = (if cur = [] then [] else [cur])"
| "split_from cur (c # cs) =
     (if is_space c then (if cur = [] then split_from [] cs else cur # split_from [] cs)
      else split_from (cur @ [c]) cs)"

definition str_split :: "string \<Rightarrow> string list" where
  "str_split s = split_from [] s"

text \<open>\<^verbatim>\<open>w.strip(chars)\<close>.\<close>

definition str_strip :: "string \<Rightarrow> string \<Rightarrow> string" where
  "str_strip chars w =
     rev (dropWhile (\<lambda>c. c \<in> set chars) (rev (dropWhile (\<lambda>c. c \<in> set chars) w)))"

text \<open>The characters \<^verbatim>\<open>.,;:!?()"'\<close>.\<close>

definition punctuation :: string where
  "punctuation = [CHR ''.'', CHR '','', CHR '';'', CHR '':'', CHR ''!'', CHR ''?'',
                  CHR ''('', CHR '')'', CHR 0x22, CHR 0x27]"

definition auto_extract_entities :: "string \<Rightarrow> string list" where
  "auto_extract_entities txt =
     (let words = str_split (lower txt);
          found = map (str_strip punctuation)
                    (filter (\<lambda>w. str_strip punctuation w \<in> set medical_terms) words)
      in if found \<noteq> [] then found else [''general_medical''])"

text \<open>\<^verbatim>\<open>__post_init__\<close>: what the constructor does to the fields it was given.\<close>

definition post_init :: "ClinicalSample \<Rightarrow> ClinicalSample" where
  "post_init s =
     (if entities s = [] then s\<lparr>entities := auto_extract_entities (text_of s)\<rparr> else s)"

subsection \<open>Feature extraction\<close>

definition DIM :: nat where
  "DIM = 256"

text \<open>The extractor owns a generator \<^verbatim>\<open>RandomState(seed)\<close>, here its seed and the number
  of draws taken from it so far, and the entity cache.\<close>

record extractor =
  rng_seed :: nat
  rng_pos :: nat
  entity_cache :: "string \<rightharpoonup> real list"

definition extractor_init :: "nat \<Rightarrow> extractor" where
  "extractor_init seed = \<lparr>rng_seed = seed, rng_pos = 0, entity_cache = Map.empty\<rparr>"

text \<open>\<^verbatim>\<open>RandomState(seed).randn(n)\<close> after \<open>pos\<close> earlier draws.\<close>

definition randn :: "lib \<Rightarrow> nat \<Rightarrow> nat \<Rightarrow> nat \<Rightarrow> real list" where
  "randn L seed pos n = map (gauss L seed) [pos..<pos + n]"

text \<open>\<^verbatim>\<open>int.from_bytes(bs, 'big')\<close>.\<close>

definition from_bytes_big :: "8 word list \<Rightarrow> nat" where
  "from_bytes_big bs = foldl (\<lambda>a b. a * 256 + unat b) 0 bs"

definition linalg_norm :: "real list \<Rightarrow> real" where
  "linalg_norm v = sqrt (sum_list (map (\<lambda>a. a * a) v))"

text \<open>What \<^verbatim>\<open>_entity_to_vector\<close> computes on a cache miss.\<close>

definition fresh_vector :: "lib \<Rightarrow> string \<Rightarrow> real list" where
  "fresh_vector L entity =
     (let h = sha256 L entity;
          seed_val = from_bytes_big (take 4 h);
          vec = randn L seed_val 0 DIM
      in map (\<lambda>a. a / (linalg_norm vec + 1 / 10 ^ 8)) vec)"

definition entity_to_vector :: "lib \<Rightarrow> extractor \<Rightarrow> string \<Rightarrow> real list \<times> extractor" where
  "entity_to_vector L ex entity =
     (case entity_cache ex entity of
        Some vec \<Rightarrow> (vec, ex)
      | None \<Rightarrow>
          (let vec = fresh_vector L entity
           in (vec, ex\<lparr>entity_cache := (entity_cache ex)(entity \<mapsto> vec)\<rparr>)))"

text \<open>The list comprehension of \<^verbatim>\<open>extract\<close>: one call per entity, left to right, each
  seeing the cache its predecessors left.\<close>

fun entity_vectors :: "lib \<Rightarrow> extractor \<Rightarrow> string list \<Rightarrow> real list list \<times> extractor" where
  "entity_vectors L ex [] = ([], ex)"
| "entity_vectors L ex (e # es) =
     (let r1 = entity_to_vector L ex e;
          r2 = entity_vectors L (snd r1) es
      in (fst r1 # fst r2, snd r2))"

text \<open>\<^verbatim>\<open>np.array(rows).mean(axis=0)\<close> on float32 rows: entry \<open>j\<close> is the float32 mean of
  column \<open>j\<close>, the rows added in list order; rows of unequal lengths do not form a matrix.
  (\<open>extract\<close> calls it on at least one row.)\<close>

definition mean_axis0 :: "real list list \<Rightarrow> error + real list" where
  "mean_axis0 rows =
     (case rows of
        [] \<Rightarrow> Inr []
      | r # _ \<Rightarrow>
          (if list_all (\<lambda>v. length v = length r) rows
           then Inr (map (\<lambda>j. f32_mean (map (\<lambda>v. v ! j) rows)) [0..<length r])
           else Inl (ValueError ''inhomogeneous shape'')))"

text \<open>\<^verbatim>\<open>a[i] = v\<close> on a one-dimensional array.\<close>

definition np_set :: "real list \<Rightarrow> nat \<Rightarrow> real \<Rightarrow> error + real list" where
  "np_set a i v = (if i < length a then Inr (a[i := v]) else Inl IndexError)"

text \<open>\<^verbatim>\<open>_HiddenStateExtractor.extract\<close> (the bare name is an Isabelle command).\<close>

definition extract_sample :: "lib \<Rightarrow> extractor \<Rightarrow> ClinicalSample \<Rightarrow> (error + real list) \<times> extractor" where
  "extract_sample L ex sample =
     (if entities sample = [] then
        (Inr (map (\<lambda>a. a * 0.01) (randn L (rng_seed ex) (rng_pos ex) DIM)),
         ex\<lparr>rng_pos := rng_pos ex + DIM\<rparr>)
      else
        (let r = entity_vectors L ex (map lower (entities sample));
             text_signal = tanh (real (length (text_of sample)) / 500)
         in (case mean_axis0 (fst r) of
               Inl e \<Rightarrow> Inl e
             | Inr base_vec \<Rightarrow>
                 (case np_set base_vec 0 text_signal of
                    Inl e \<Rightarrow> Inl e
                  | Inr b0 \<Rightarrow> np_set b0 1 (tanh (real (length (entities sample)) / 10))),
             snd r)))"

fun extract_batch :: "lib \<Rightarrow> extractor \<Rightarrow> ClinicalSample list \<Rightarrow> (error + real list list) \<times> extractor" where
  "extract_batch L ex [] = (Inr [], ex)"
| "extract_batch L ex (s # ss) =
     (case extract_sample L ex s of
        (Inl e, ex1) \<Rightarrow> (Inl e, ex1)
      | (Inr x, ex1) \<Rightarrow>
          (case extract_batch L ex1 ss of
             (Inl e, ex2) \<Rightarrow> (Inl e, ex2)
           | (Inr xs, ex2) \<Rightarrow> (Inr (x # xs), ex2)))"

subsection \<open>Training the probes\<close>

record c_metrics =
  c_auc_roc :: real
  c_accuracy :: real

record r_metrics =
  r_mae :: real
  r_r2 :: real

record v_metrics =
  v_auc_roc :: real
  v_sparsity :: real

text \<open>\<^verbatim>\<open>_ProbeC.train\<close>: the fit is outside the \<^verbatim>\<open>try\<close>; only \<^verbatim>\<open>roc_auc_score\<close> is
  guarded, and only against \<^verbatim>\<open>ValueError\<close>.\<close>

definition ProbeC_train :: "lib \<Rightarrow> ProbeC \<Rightarrow> real list list \<Rightarrow> int list \<Rightarrow> (error + c_metrics) \<times> ProbeC" where
  "ProbeC_train L p X y =
     (case LogisticRegression_fit L
             \<lparr>lr_C = c_C p, lr_l1_ratio = 0, lr_solver = ''lbfgs'',
              lr_max_iter = 1000, lr_random_state = 42\<rparr> X y of
        Inl e \<Rightarrow> (Inl e, p)
      | Inr clf \<Rightarrow>
          (let p' = p\<lparr>c_weights := Some (coef0 clf), c_bias := intercept0 clf, c_trained := True\<rparr>;
               y_prob = predict_proba1 clf X
           in (case roc_auc_score L y y_prob of
                 Inl e \<Rightarrow>
                   (if is_ValueError e
                    then (Inr \<lparr>c_auc_roc = 0.5, c_accuracy = lr_score clf X y\<rparr>, p')
                    else (Inl e, p'))
               | Inr auc \<Rightarrow> (Inr \<lparr>c_auc_roc = auc, c_accuracy = lr_score clf X y\<rparr>, p'))))"

text \<open>\<^verbatim>\<open>_ProbeR.train\<close>: the regressor is stored in \<^verbatim>\<open>self.model\<close> before it is fitted.\<close>

definition ProbeR_train :: "lib \<Rightarrow> ProbeR \<Rightarrow> real list list \<Rightarrow> real list \<Rightarrow> (error + r_metrics) \<times> ProbeR" where
  "ProbeR_train L p X risk_labels =
     (case MLPRegressor_fit L X risk_labels of
        Inl e \<Rightarrow> (Inl e, p\<lparr>r_model := Some Unfitted\<rparr>)
      | Inr m \<Rightarrow>
          (let p' = p\<lparr>r_model := Some (Fitted m), r_trained := True\<rparr>;
               predictions = mlp_predict m X;
               mae = np_mean (map2 (\<lambda>a b. \<bar>a - b\<bar>) predictions risk_labels)
           in (Inr \<lparr>r_mae = mae, r_r2 = mlp_score m X risk_labels\<rparr>, p')))"

definition ProbeV_train :: "lib \<Rightarrow> ProbeV \<Rightarrow> real list list \<Rightarrow> int list \<Rightarrow> (error + v_metrics) \<times> ProbeV" where
  "ProbeV_train L p X y =
     (case LogisticRegression_fit L
             \<lparr>lr_C = v_C p, lr_l1_ratio = 1, lr_solver = ''saga'',
              lr_max_iter = 1000, lr_random_state = 42\<rparr> X y of
        Inl e \<Rightarrow> (Inl e, p)
      | Inr clf \<Rightarrow>
          (let w = coef0 clf;
               p' = p\<lparr>v_weights := Some w, v_bias := intercept0 clf, v_trained := True,
                      v_nonzero_mask := Some (np_nonzero w)\<rparr>;
               y_prob = predict_proba1 clf X
           in (case (case roc_auc_score L y y_prob of
                       Inl e \<Rightarrow> (if is_ValueError e then Inr 0.5 else Inl e)
                     | Inr auc \<Rightarrow> Inr auc) of
                 Inl e \<Rightarrow> (Inl e, p')
               | Inr auc \<Rightarrow>
                   (if length w = 0 then (Inl ZeroDivisionError, p')
                    else (Inr \<lparr>v_auc_roc = auc,
                               v_sparsity = 1 - real (length (np_nonzero w)) / real (length w)\<rparr>,
                          p')))))"

subsection \<open>The composite scorer\<close>

record details =
  text_length :: nat
  n_entities :: nat
  d_specialty :: string

record QHIScore =
  qhi :: real
  uncertainty :: real
  risk_score :: real
  violation_prob :: real
  gate :: string
  inference_ms :: real
  details :: details

record training_metrics =
  m_probe_c :: c_metrics
  m_probe_r :: r_metrics
  m_probe_v :: v_metrics
  n_train :: nat
  n_hallucinated :: int
  n_clean :: int

record config =
  cfg_seed :: "nat option"
  cfg_probe_c_C :: "real option"
  cfg_probe_v_C :: "real option"

text \<open>The system object.  \<open>clock_reads\<close> counts the readings of the process clock taken so
  far; it is not a field of the Python object, it only threads the clock through.\<close>

record QHIProbeSystem =
  extractor :: extractor
  probe_c :: ProbeC
  probe_r :: ProbeR
  probe_v :: ProbeV
  trained :: bool
  training_metrics :: "training_metrics option"
  clock_reads :: nat

definition QHIProbeSystem_init :: "config option \<Rightarrow> QHIProbeSystem" where
  "QHIProbeSystem_init cfg =
     (let c = (case cfg of None \<Rightarrow> \<lparr>cfg_seed = None, cfg_probe_c_C = None, cfg_probe_v_C = None\<rparr>
                         | Some c \<Rightarrow> c)
      in \<lparr>extractor = extractor_init (case cfg_seed c of None \<Rightarrow> 42 | Some s \<Rightarrow> s),
          probe_c = ProbeC_init (case cfg_probe_c_C c of None \<Rightarrow> 1.0 | Some v \<Rightarrow> v),
          probe_r = ProbeR_init,
          probe_v = ProbeV_init (case cfg_probe_v_C c of None \<Rightarrow> 0.5 | Some v \<Rightarrow> v),
          trained = False,
          training_metrics = None,
          clock_reads = 0\<rparr>)"

text \<open>The gate assignment of \<^verbatim>\<open>score\<close>.\<close>

definition gate_of :: "real \<Rightarrow> string" where
  "gate_of q = (if q < 5.0 then ''AUTO_USE'' else if q < 20.0 then ''REVIEW'' else ''BLOCK'')"

text \<open>The three probe calls of \<^verbatim>\<open>score\<close>, in the source's order; the first exception ends
  the call.\<close>

definition run_probes :: "QHIProbeSystem \<Rightarrow> real list \<Rightarrow> string \<Rightarrow> error + real \<times> real \<times> real" where
  "run_probes sys x sp =
     (case ProbeC_predict (probe_c sys) x of
        Inl e \<Rightarrow> Inl e
      | Inr u \<Rightarrow>
          (case ProbeR_predict (probe_r sys) x sp of
             Inl e \<Rightarrow> Inl e
           | Inr r \<Rightarrow>
               (case ProbeV_predict (probe_v sys) x of
                  Inl e \<Rightarrow> Inl e
                | Inr v \<Rightarrow> Inr (u, r, v))))"

definition score :: "lib \<Rightarrow> QHIProbeSystem \<Rightarrow> ClinicalSample \<Rightarrow> (error + QHIScore) \<times> QHIProbeSystem" where
  "score L sys sample =
     (let t0 = perf_counter L (clock_reads sys);
          sys0 = sys\<lparr>clock_reads := clock_reads sys + 1\<rparr>;
          ext = extract_sample L (extractor sys0) sample;
          sys1 = sys0\<lparr>extractor := snd ext\<rparr>
      in (case fst ext of
            Inl e \<Rightarrow> (Inl e, sys1)
          | Inr x \<Rightarrow>
              (case run_probes sys1 x (specialty sample) of
                 Inl e \<Rightarrow> (Inl e, sys1)
               | Inr (u, r, v) \<Rightarrow>
                   (let q = clip (u * r * v * 5.0) 0.0 25.0;
                        g = gate_of q;
                        t1 = perf_counter L (clock_reads sys1)
                    in (Inr \<lparr>qhi = q, uncertainty = u, risk_score = r, violation_prob = v,
                             gate = g, inference_ms = (t1 - t0) * 1000,
                             details = \<lparr>text_length = length (text_of sample),
                                        n_entities = length (entities sample),
                                        d_specialty = specialty sample\<rparr>\<rparr>,
                        sys1\<lparr>clock_reads := clock_reads sys1 + 1\<rparr>)))))"

fun score_batch :: "lib \<Rightarrow> QHIProbeSystem \<Rightarrow> ClinicalSample list \<Rightarrow> (error + QHIScore list) \<times> QHIProbeSystem" where
  "score_batch L sys [] = (Inr [], sys)"
| "score_batch L sys (s # ss) =
     (case score L sys s of
        (Inl e, sys1) \<Rightarrow> (Inl e, sys1)
      | (Inr r, sys1) \<Rightarrow>
          (case score_batch L sys1 ss of
             (Inl e, sys2) \<Rightarrow> (Inl e, sys2)
           | (Inr rs, sys2) \<Rightarrow> (Inr (r # rs), sys2)))"

subsection \<open>Training the system\<close>

definition train :: "lib \<Rightarrow> QHIProbeSystem \<Rightarrow> ClinicalSample list \<Rightarrow> (error + training_metrics) \<times> QHIProbeSystem" where
  "train L sys samples =
     (if length samples < 10 then
        (Inl (ValueError (''Need at least 10 samples, got '' @ str_of_nat (length samples))), sys)
      else
        (let ext = extract_batch L (extractor sys) samples;
             sys1 = sys\<lparr>extractor := snd ext\<rparr>
         in (case fst ext of
               Inl e \<Rightarrow> (Inl e, sys1)
             | Inr X \<Rightarrow>
                 (let y_hallucinated = map true_label samples;
                      y_severity = map true_severity samples;
                      y_risk = map (\<lambda>a. clip (a / 5.0) 1.0 5.0) y_severity;
                      y_violation = map (\<lambda>a. if a > 10.0 then 1 else 0) y_severity;
                      rc = ProbeC_train L (probe_c sys1) X y_hallucinated;
                      sys2 = sys1\<lparr>probe_c := snd rc\<rparr>
                  in (case fst rc of
                        Inl e \<Rightarrow> (Inl e, sys2)
                      | Inr metrics_c \<Rightarrow>
                          (let rr = ProbeR_train L (probe_r sys2) X y_risk;
                               sys3 = sys2\<lparr>probe_r := snd rr\<rparr>
                           in (case fst rr of
                                 Inl e \<Rightarrow> (Inl e, sys3)
                               | Inr metrics_r \<Rightarrow>
                                   (let rv = ProbeV_train L (probe_v sys3) X y_violation;
                                        sys4 = sys3\<lparr>probe_v := snd rv\<rparr>
                                    in (case fst rv of
                                          Inl e \<Rightarrow> (Inl e, sys4)
                                        | Inr metrics_v \<Rightarrow>
                                            (let m = \<lparr>m_probe_c = metrics_c,
                                                      m_probe_r = metrics_r,
                                                      m_probe_v = metrics_v,
                                                      n_train = length samples,
                                                      n_hallucinated = sum_list y_hallucinated,
                                                      n_clean = sum_list (map (\<lambda>a. 1 - a) y_hallucinated)\<rparr>
                                             in (Inr m,
                                                 sys4\<lparr>trained := True,
                                                      training_metrics := Some m\<rparr>)))))))))))"

subsection \<open>The benchmark\<close>

record gate_dist =
  pct_AUTO_USE :: real
  pct_REVIEW :: real
  pct_BLOCK :: real


text \<open>Python's \<^verbatim>\<open>/\<close> on two integers.\<close>

definition py_truediv :: "nat \<Rightarrow> nat \<Rightarrow> error + real" where
  "py_truediv a b = (if b = 0 then Inl ZeroDivisionError else Inr (real a / real b))"



text \<open>The dictionary display \<^verbatim>\<open>gate_dist\<close>: its three values are computed in order.\<close>

definition gate_distribution :: "string list \<Rightarrow> error + gate_dist" where
  "gate_distribution gates =
     (case py_truediv (count_list gates ''AUTO_USE'') (length gates) of
        Inl e \<Rightarrow> Inl e
      | Inr a \<Rightarrow>
          (case py_truediv (count_list gates ''REVIEW'') (length gates) of
             Inl e \<Rightarrow> Inl e
           | Inr r \<Rightarrow>
               (case py_truediv (count_list gates ''BLOCK'') (length gates) of
                  Inl e \<Rightarrow> Inl e
                | Inr b \<Rightarrow>
                    Inr \<lparr>pct_AUTO_USE = a * 100, pct_REVIEW = r * 100, pct_BLOCK = b * 100\<rparr>)))"


section \<open>Notions used in the statements\<close>

text \<open>The cache invariant: an entry of the entity cache is what a cache miss computes for
  its key.  The cache is written by \<open>entity_to_vector\<close> only, and starts empty.\<close>

definition cache_ok :: "lib \<Rightarrow> extractor \<Rightarrow> bool" where
  "cache_ok L ex = (\<forall>e v. entity_cache ex e = Some v \<longrightarrow> v = fresh_vector L e)"


text \<open>The feature vector of a sample with entities, from the sample alone: entry by
  entry the float32 mean over the embeddings of the lowercased entities, in list order,
  index 0 and index 1 overwritten.\<close>

definition pooled_features :: "lib \<Rightarrow> ClinicalSample \<Rightarrow> real list" where
  "pooled_features L s =
     (map (\<lambda>j. f32_mean (map (\<lambda>e. fresh_vector L (lower e) ! j) (entities s))) [0..<256])
       [0 := tanh (real (length (text_of s)) / 500),
        1 := tanh (real (length (entities s)) / 10)]"

text \<open>The three probe outputs for a sample, from the probes and the sample alone.\<close>

definition probe_outputs :: "lib \<Rightarrow> QHIProbeSystem \<Rightarrow> ClinicalSample \<Rightarrow> error + real \<times> real \<times> real" where
  "probe_outputs L sys s = run_probes sys (pooled_features L s) (specialty s)"

text \<open>Two states of a system with the same three probes.\<close>

definition same_probes :: "QHIProbeSystem \<Rightarrow> QHIProbeSystem \<Rightarrow> bool" where
  "same_probes a b = (probe_c a = probe_c b \<and> probe_r a = probe_r b \<and> probe_v a = probe_v b)"

text \<open>The embedding as a function of the generator's seed alone: the first \<open>DIM\<close> draws,
  divided by their norm plus \<open>1e-8\<close>.\<close>

definition vector_of_seed :: "lib \<Rightarrow> nat \<Rightarrow> real list" where
  "vector_of_seed L seed_val =
     map (\<lambda>a. a / (linalg_norm (randn L seed_val 0 DIM) + 1 / 10 ^ 8)) (randn L seed_val 0 DIM)"

text \<open>What \<open>ProbeV_train\<close> leaves behind: a trained Probe-V has weights, and its mask is the
  index set of the nonzero weights.\<close>

definition ProbeV_inv :: "ProbeV \<Rightarrow> bool" where
  "ProbeV_inv p =
     (v_trained p \<longrightarrow> (\<exists>w. v_weights p = Some w \<and> v_nonzero_mask p = Some (np_nonzero w)))"

text \<open>The three label vectors that \<open>train\<close> derives, and the condition that the three
  learners accept the features and labels of a sample list.\<close>

definition learners_accept :: "lib \<Rightarrow> QHIProbeSystem \<Rightarrow> ClinicalSample list \<Rightarrow> bool" where
  "learners_accept L sys samples =
     (let X = map (pooled_features L) samples;
          y_severity = map true_severity samples
      in \<not> isl (fst (ProbeC_train L (probe_c sys) X (map true_label samples)))
       \<and> \<not> isl (fst (ProbeR_train L (probe_r sys) X (map (\<lambda>a. clip (a / 5) 1 5) y_severity)))
       \<and> \<not> isl (fst (ProbeV_train L (probe_v sys) X
                        (map (\<lambda>a. if a > 10 then 1 else 0) y_severity))))"

subsection \<open>A concrete library and concrete inputs\<close>

text \<open>
  An instance of the library interface for evaluating the model at concrete inputs.  It
  does what scikit-learn does on labels of a single class (\<^verbatim>\<open>LogisticRegression.fit\<close>
  and \<^verbatim>\<open>roc_auc_score\<close> raise \<^verbatim>\<open>ValueError\<close>); its numbers are arbitrary.
\<close>

definition single_class :: "int list \<Rightarrow> bool" where
  "single_class y = (length (remdups y) < 2)"

definition demo_clf :: "real list list \<Rightarrow> lr_fitted" where
  "demo_clf X =
     \<lparr>coef0 = (case X of [] \<Rightarrow> [] | r # _ \<Rightarrow> map (\<lambda>j. if even j then 0 else 1) [0..<length r]),
      intercept0 = 0,
      predict_proba1 = (\<lambda>X'. map (\<lambda>_. 1 / 2) X'),
      lr_score = (\<lambda>X' y'. 1)\<rparr>"

definition demo_lib :: lib where
  "demo_lib =
     \<lparr>sha256 = (\<lambda>s. map (\<lambda>c. of_nat (of_char c)) s),
      gauss = (\<lambda>seed k. 1),
      perf_counter = (\<lambda>k. real k / 1000),
      LogisticRegression_fit =
        (\<lambda>p X y. if single_class y
                  then Inl (ValueError ''This solver needs samples of at least 2 classes'')
                  else Inr (demo_clf X)),
      MLPRegressor_fit =
        (\<lambda>X y. Inr \<lparr>mlp_predict = (\<lambda>X'. map (\<lambda>_. 3) X'), mlp_score = (\<lambda>X' y'. 0)\<rparr>),
      roc_auc_score =
        (\<lambda>y p. if single_class y then Inl (ValueError ''Only one class present in y_true'')
                else Inr (1 / 2)),
      average_precision_score = (\<lambda>y p. Inr (1 / 2)),
      f1_score = (\<lambda>y p. Inr 0),
      pearsonr = (\<lambda>a b. Inr 0),
      percentile = (\<lambda>a q. Inr 0)\<rparr>"

definition demo_sample :: ClinicalSample where
  "demo_sample =
     \<lparr>text_of = ''Q: STEMI treatment? A: Give antacids. Likely GERD.'',
      entities = [''stemi'', ''antacids'', ''gerd''],
      true_label = 1,
      true_severity = 24,
      specialty = ''Cardiology'',
      model_name = ''unknown''\<rparr>"

definition demo_clean :: ClinicalSample where
  "demo_clean =
     \<lparr>text_of = ''Q: Anaphylaxis first-line? A: IM epinephrine immediately.'',
      entities = [''anaphylaxis'', ''epinephrine''],
      true_label = 0,
      true_severity = 0,
      specialty = ''emergency'',
      model_name = ''unknown''\<rparr>"

definition demo_samples :: "ClinicalSample list" where
  "demo_samples =
     [demo_sample, demo_clean, demo_sample, demo_clean, demo_sample,
      demo_clean, demo_sample, demo_clean, demo_sample, demo_clean]"

text \<open>Ten samples with both labels and no severity above 10, and ten samples that are
  all correct answers.\<close>

definition demo_low_severity :: "ClinicalSample list" where
  "demo_low_severity = map (\<lambda>s. s\<lparr>true_severity := true_severity s / 3\<rparr>) demo_samples"

definition demo_all_correct :: "ClinicalSample list" where
  "demo_all_correct = map (\<lambda>s. s\<lparr>true_label := 0, true_severity := 0\<rparr>) demo_samples"



section \<open>Properties\<close>

subsection \<open>Auxiliary facts\<close>

text \<open>A constructed sample has at least one entity.\<close>

lemma post_init_entities: "entities (post_init s) \<noteq> []"
  by (simp add: post_init_def auto_extract_entities_def Let_def)

lemma auto_extract_example:
  "auto_extract_entities ''Give Aspirin!'' = [''aspirin'']"
  "auto_extract_entities ''no term'' = [''general_medical'']"
  by (simp_all add: auto_extract_entities_def Let_def str_split_def is_space_def lower_def
      lower_char_def str_strip_def punctuation_def medical_terms_def)

lemma clip_bounds: "lo \<le> hi \<Longrightarrow> lo \<le> clip a lo hi \<and> clip a lo hi \<le> hi"
  by (auto simp: clip_def)

lemma gate_of_iff:
  "gate_of q = ''AUTO_USE'' \<longleftrightarrow> q < 5"
  "gate_of q = ''REVIEW'' \<longleftrightarrow> 5 \<le> q \<and> q < 20"
  "gate_of q = ''BLOCK'' \<longleftrightarrow> 20 \<le> q"
  by (auto simp: gate_of_def)

lemma lower_idem: "lower (lower s) = lower s"
proof -
  have "lower_char (lower_char c) = lower_char c" for c
    by (auto simp: lower_char_def split: option.splits if_splits)
  then show ?thesis by (simp add: lower_def)
qed

lemma score_InrD:
  assumes "fst (score L sys sample) = Inr r"
  shows "qhi r = clip (uncertainty r * risk_score r * violation_prob r * 5) 0 25"
    and "gate r = gate_of (qhi r)"
  using assms
  by (auto simp: score_def Let_def split: sum.splits prod.splits)

subsection \<open>float32 rounding and running sums\<close>



















subsection \<open>Extraction and scoring\<close>

lemma length_fresh_vector: "length (fresh_vector L e) = DIM"
  by (simp add: fresh_vector_def randn_def Let_def)

lemma cache_ok_init: "cache_ok L (extractor_init seed)"
  by (simp add: cache_ok_def extractor_init_def)

lemma entity_to_vector_ok:
  assumes "cache_ok L ex"
  shows "fst (entity_to_vector L ex e) = fresh_vector L e"
    and "cache_ok L (snd (entity_to_vector L ex e))"
    and "rng_seed (snd (entity_to_vector L ex e)) = rng_seed ex"
    and "rng_pos (snd (entity_to_vector L ex e)) = rng_pos ex"
  using assms
  by (auto simp: entity_to_vector_def cache_ok_def Let_def split: option.splits)

lemma entity_vectors_ok:
  assumes "cache_ok L ex"
  shows "fst (entity_vectors L ex es) = map (fresh_vector L) es
         \<and> cache_ok L (snd (entity_vectors L ex es))
         \<and> rng_seed (snd (entity_vectors L ex es)) = rng_seed ex
         \<and> rng_pos (snd (entity_vectors L ex es)) = rng_pos ex"
  using assms
proof (induction es arbitrary: ex)
  case Nil
  then show ?case by simp
next
  case (Cons e es)
  from Cons.prems have ok1: "cache_ok L (snd (entity_to_vector L ex e))"
    by (rule entity_to_vector_ok)
  from Cons.IH [OF ok1] Cons.prems show ?case
    by (simp add: Let_def entity_to_vector_ok)
qed

lemma mean_axis0_uniform:
  assumes "vs \<noteq> []" and "\<And>v. v \<in> set vs \<Longrightarrow> length v = n"
  shows "mean_axis0 vs = Inr (map (\<lambda>j. f32_mean (map (\<lambda>v. v ! j) vs)) [0..<n])"
proof -
  obtain r rs where vs: "vs = r # rs" using assms(1) by (cases vs) auto
  have r: "length r = n" using assms(2) by (simp add: vs)
  have "list_all (\<lambda>v. length v = length r) vs"
    using assms(2) r by (simp add: list_all_iff)
  then show ?thesis
    using r by (simp add: mean_axis0_def vs)
qed

lemma extract_sample_ok:
  assumes "cache_ok L ex" and "entities s \<noteq> []"
  shows "fst (extract_sample L ex s) = Inr (pooled_features L s)"
    and "cache_ok L (snd (extract_sample L ex s))"
    and "rng_seed (snd (extract_sample L ex s)) = rng_seed ex"
    and "rng_pos (snd (extract_sample L ex s)) = rng_pos ex"
proof -
  let ?es = "map lower (entities s)"
  let ?vs = "map (\<lambda>e. fresh_vector L (lower e)) (entities s)"
  have ev: "fst (entity_vectors L ex ?es) = ?vs"
    using entity_vectors_ok [OF assms(1), of ?es] by (simp add: comp_def)
  have mean: "mean_axis0 ?vs = Inr (map (\<lambda>j. f32_mean (map (\<lambda>v. v ! j) ?vs)) [0..<DIM])"
    by (rule mean_axis0_uniform) (use assms(2) in \<open>auto simp: length_fresh_vector\<close>)
  show "fst (extract_sample L ex s) = Inr (pooled_features L s)"
    using assms(2)
    by (simp add: extract_sample_def Let_def ev mean np_set_def pooled_features_def DIM_def
        comp_def)
  show "cache_ok L (snd (extract_sample L ex s))"
    using assms(2) entity_vectors_ok [OF assms(1), of ?es]
    by (simp add: extract_sample_def Let_def)
  show "rng_seed (snd (extract_sample L ex s)) = rng_seed ex"
    using assms(2) entity_vectors_ok [OF assms(1), of ?es]
    by (simp add: extract_sample_def Let_def)
  show "rng_pos (snd (extract_sample L ex s)) = rng_pos ex"
    using assms(2) entity_vectors_ok [OF assms(1), of ?es]
    by (simp add: extract_sample_def Let_def)
qed

lemma length_pooled_features: "length (pooled_features L s) = 256"
  by (simp add: pooled_features_def)

lemma run_probes_cong:
  "probe_c a = probe_c b \<Longrightarrow> probe_r a = probe_r b \<Longrightarrow> probe_v a = probe_v b
   \<Longrightarrow> run_probes a x sp = run_probes b x sp"
  by (simp add: run_probes_def cong: sum.case_cong)

lemma score_probes_unchanged:
  "probe_c (snd (score L sys s)) = probe_c sys
   \<and> probe_r (snd (score L sys s)) = probe_r sys
   \<and> probe_v (snd (score L sys s)) = probe_v sys"
  by (simp add: score_def Let_def split: sum.splits prod.splits)

lemma score_cache_ok:
  assumes "cache_ok L (extractor sys)" and "entities s \<noteq> []"
  shows "cache_ok L (extractor (snd (score L sys s)))"
  using extract_sample_ok(2) [OF assms]
  by (simp add: score_def Let_def split: sum.splits prod.splits)

lemma score_char:
  assumes "cache_ok L (extractor sys)" and "entities s \<noteq> []"
  shows "(\<forall>e. probe_outputs L sys s = Inl e \<longrightarrow> fst (score L sys s) = Inl e)
       \<and> (\<forall>u r v. probe_outputs L sys s = Inr (u, r, v) \<longrightarrow>
            (\<exists>res. fst (score L sys s) = Inr res \<and> uncertainty res = u \<and> risk_score res = r
                \<and> violation_prob res = v \<and> qhi res = clip (u * r * v * 5) 0 25))"
proof -
  let ?sys0 = "sys\<lparr>clock_reads := clock_reads sys + 1\<rparr>"
  let ?ext = "extract_sample L (extractor ?sys0) s"
  have x: "fst ?ext = Inr (pooled_features L s)"
    using extract_sample_ok(1) [OF _ assms(2), of L "extractor ?sys0"] assms(1) by simp
  have rp: "run_probes (?sys0\<lparr>extractor := snd ?ext\<rparr>) (pooled_features L s) (specialty s)
            = probe_outputs L sys s"
    unfolding probe_outputs_def by (rule run_probes_cong) simp_all
  show ?thesis
    using x rp by (auto simp: score_def Let_def split: sum.splits prod.splits)
qed

lemma probe_outputs_untrained:
  assumes "\<not> c_trained (probe_c sys)" and "\<not> r_trained (probe_r sys)"
    and "\<not> v_trained (probe_v sys)"
  shows "probe_outputs L sys s = Inr (1 / 2, risk_get (lower (specialty s)) (5 / 2), 1 / 2)"
  using assms
  by (simp add: probe_outputs_def run_probes_def ProbeC_predict_def ProbeR_predict_def
      ProbeV_predict_def)

lemma init_untrained:
  "\<not> c_trained (probe_c (QHIProbeSystem_init cfg))"
  "\<not> r_trained (probe_r (QHIProbeSystem_init cfg))"
  "\<not> v_trained (probe_v (QHIProbeSystem_init cfg))"
  "cache_ok L (extractor (QHIProbeSystem_init cfg))"
  by (simp_all add: QHIProbeSystem_init_def Let_def ProbeC_init_def ProbeR_init_def
      ProbeV_init_def cache_ok_init)

lemma demo_sample_simps:
  "entities demo_sample \<noteq> []"
  "risk_get (lower (specialty demo_sample)) (5 / 2) = 46 / 10"
  by (simp_all add: demo_sample_def risk_get_def lower_def lower_char_def SPECIALTY_RISK_MAP_def)

lemma demo_score:
  "\<exists>res. fst (score L (QHIProbeSystem_init None) demo_sample) = Inr res
     \<and> uncertainty res = 1 / 2 \<and> risk_score res = 46 / 10 \<and> violation_prob res = 1 / 2
     \<and> qhi res = 23 / 4"
proof -
  let ?sys = "QHIProbeSystem_init None"
  have po: "probe_outputs L ?sys demo_sample = Inr (1 / 2, 46 / 10, 1 / 2)"
    by (simp add: probe_outputs_untrained init_untrained demo_sample_simps)
  from score_char [OF init_untrained(4) demo_sample_simps(1)] po
  obtain res where "fst (score L ?sys demo_sample) = Inr res" "uncertainty res = 1 / 2"
    "risk_score res = 46 / 10" "violation_prob res = 1 / 2"
    "qhi res = clip (1 / 2 * (46 / 10) * (1 / 2) * 5) 0 25"
    by blast
  then show ?thesis by (auto simp: clip_def)
qed

subsection \<open>The composite score\<close>

text \<open>
  C1.  \<open>score\<close> returns a result exactly when the extraction and the three probes return.
  The result's \<open>uncertainty\<close>, \<open>risk_score\<close> and \<open>violation_prob\<close> are then what Probe-U,
  Probe-R (with the sample's specialty) and Probe-V return on the feature vector that
  \<open>extract\<close> computes for the sample, its \<open>qhi\<close> is
  \<open>clip (uncertainty \<times> risk_score \<times> violation_prob \<times> 5) 0 25\<close>, and so \<open>0 \<le> qhi \<le> 25\<close>.
\<close>

theorem score_qhi_clip:
  "(\<forall>r. fst (score L sys sample) = Inr r \<longrightarrow>
      (\<exists>x. fst (extract_sample L (extractor sys) sample) = Inr x
         \<and> ProbeC_predict (probe_c sys) x = Inr (uncertainty r)
         \<and> ProbeR_predict (probe_r sys) x (specialty sample) = Inr (risk_score r)
         \<and> ProbeV_predict (probe_v sys) x = Inr (violation_prob r))
      \<and> qhi r = clip (uncertainty r * risk_score r * violation_prob r * 5) 0 25
      \<and> 0 \<le> qhi r \<and> qhi r \<le> 25)
   \<and> (\<forall>x u rk v. fst (extract_sample L (extractor sys) sample) = Inr x
         \<and> ProbeC_predict (probe_c sys) x = Inr u
         \<and> ProbeR_predict (probe_r sys) x (specialty sample) = Inr rk
         \<and> ProbeV_predict (probe_v sys) x = Inr v \<longrightarrow>
      (\<exists>r. fst (score L sys sample) = Inr r \<and> uncertainty r = u \<and> risk_score r = rk
         \<and> violation_prob r = v \<and> qhi r = clip (u * rk * v * 5) 0 25))"
proof (intro conjI allI impI)
  fix r assume r: "fst (score L sys sample) = Inr r"
  then show "\<exists>x. fst (extract_sample L (extractor sys) sample) = Inr x
         \<and> ProbeC_predict (probe_c sys) x = Inr (uncertainty r)
         \<and> ProbeR_predict (probe_r sys) x (specialty sample) = Inr (risk_score r)
         \<and> ProbeV_predict (probe_v sys) x = Inr (violation_prob r)"
    by (auto simp: score_def run_probes_def Let_def split: sum.splits prod.splits)
  from r show q: "qhi r = clip (uncertainty r * risk_score r * violation_prob r * 5) 0 25"
    by (rule score_InrD)
  have b: "0 \<le> clip (uncertainty r * risk_score r * violation_prob r * 5) 0 25
      \<and> clip (uncertainty r * risk_score r * violation_prob r * 5) 0 25 \<le> 25"
    by (rule clip_bounds) simp
  from q b show "0 \<le> qhi r" by simp
  from q b show "qhi r \<le> 25" by simp
next
  fix x u rk v
  assume "fst (extract_sample L (extractor sys) sample) = Inr x
         \<and> ProbeC_predict (probe_c sys) x = Inr u
         \<and> ProbeR_predict (probe_r sys) x (specialty sample) = Inr rk
         \<and> ProbeV_predict (probe_v sys) x = Inr v"
  then show "\<exists>r. fst (score L sys sample) = Inr r \<and> uncertainty r = u \<and> risk_score r = rk
         \<and> violation_prob r = v \<and> qhi r = clip (u * rk * v * 5) 0 25"
    by (simp add: score_def run_probes_def Let_def)
qed

theorem score_qhi_clip_witness:
  "\<exists>r x. fst (score demo_lib (QHIProbeSystem_init None) demo_sample) = Inr r
      \<and> fst (extract_sample demo_lib (extractor (QHIProbeSystem_init None)) demo_sample) = Inr x
      \<and> ProbeC_predict (probe_c (QHIProbeSystem_init None)) x = Inr (uncertainty r)
      \<and> ProbeR_predict (probe_r (QHIProbeSystem_init None)) x (specialty demo_sample)
          = Inr (risk_score r)
      \<and> ProbeV_predict (probe_v (QHIProbeSystem_init None)) x = Inr (violation_prob r)
      \<and> uncertainty r = 1 / 2 \<and> risk_score r = 46 / 10 \<and> violation_prob r = 1 / 2
      \<and> qhi r = 23 / 4 \<and> 0 \<le> qhi r \<and> qhi r \<le> 25"
proof -
  obtain r where r: "fst (score demo_lib (QHIProbeSystem_init None) demo_sample) = Inr r"
    and v: "uncertainty r = 1 / 2" "risk_score r = 46 / 10" "violation_prob r = 1 / 2"
      "qhi r = 23 / 4"
    using demo_score [of demo_lib] by blast
  from score_qhi_clip [of demo_lib "QHIProbeSystem_init None" demo_sample] r
  obtain x where
    "fst (extract_sample demo_lib (extractor (QHIProbeSystem_init None)) demo_sample) = Inr x"
    "ProbeC_predict (probe_c (QHIProbeSystem_init None)) x = Inr (uncertainty r)"
    "ProbeR_predict (probe_r (QHIProbeSystem_init None)) x (specialty demo_sample)
          = Inr (risk_score r)"
    "ProbeV_predict (probe_v (QHIProbeSystem_init None)) x = Inr (violation_prob r)"
    "0 \<le> qhi r" "qhi r \<le> 25"
    by blast
  with r v show ?thesis by blast
qed

text \<open>
  C2.  The gate of a returned result is a function of its \<open>qhi\<close> alone, with half-open
  bands: \<open>AUTO_USE\<close> exactly below 5, \<open>REVIEW\<close> exactly from 5 up to but not including 20,
  \<open>BLOCK\<close> exactly from 20 on; so 5 is \<open>REVIEW\<close> and 20 is \<open>BLOCK\<close>.
\<close>

theorem score_gate_thresholds:
  assumes "fst (score L sys sample) = Inr r"
  shows "gate r = gate_of (qhi r)
         \<and> (gate r = ''AUTO_USE'' \<longleftrightarrow> qhi r < 5)
         \<and> (gate r = ''REVIEW'' \<longleftrightarrow> 5 \<le> qhi r \<and> qhi r < 20)
         \<and> (gate r = ''BLOCK'' \<longleftrightarrow> 20 \<le> qhi r)
         \<and> gate_of 5 = ''REVIEW'' \<and> gate_of 20 = ''BLOCK''"
proof -
  have g: "gate r = gate_of (qhi r)"
    using assms by (rule score_InrD)
  show ?thesis
    unfolding g by (simp add: gate_of_iff gate_of_def)
qed

theorem score_gate_thresholds_witness:
  "\<exists>r. fst (score demo_lib (QHIProbeSystem_init None) demo_sample) = Inr r
      \<and> qhi r = 23 / 4 \<and> gate r = ''REVIEW''"
proof -
  obtain r where r: "fst (score demo_lib (QHIProbeSystem_init None) demo_sample) = Inr r"
    and q: "qhi r = 23 / 4"
    using demo_score [of demo_lib] by blast
  from score_gate_thresholds [OF r] have "gate r = ''REVIEW'' \<longleftrightarrow> 5 \<le> qhi r \<and> qhi r < 20"
    by blast
  with q have "gate r = ''REVIEW''" by simp
  with r q show ?thesis by blast
qed

subsection \<open>Untrained probes\<close>

text \<open>
  C8.  An untrained probe never raises: Probe-U (\<open>ProbeC\<close>) and Probe-V return 0.5 for every
  input vector; Probe-R returns the specialty table's value for the lowercased specialty,
  2.5 when the table has none, so that the answer does not depend on the case of the
  specialty's letters.
\<close>

theorem untrained_predict_fallback:
  "ProbeC_predict (pc\<lparr>c_trained := False\<rparr>) x = Inr 0.5
   \<and> ProbeV_predict (pv\<lparr>v_trained := False\<rparr>) x = Inr 0.5
   \<and> ProbeR_predict (pr\<lparr>r_trained := False\<rparr>) x sp =
        Inr (case map_of SPECIALTY_RISK_MAP (lower sp) of Some v \<Rightarrow> v | None \<Rightarrow> 2.5)
   \<and> ProbeR_predict (pr\<lparr>r_trained := False\<rparr>) x (lower sp) =
        ProbeR_predict (pr\<lparr>r_trained := False\<rparr>) x sp"
  by (simp add: ProbeC_predict_def ProbeV_predict_def ProbeR_predict_def risk_get_def lower_idem
      split: option.split)

lemma untrained_risk_examples:
  "ProbeR_predict ProbeR_init x ''Cardiology'' = Inr 4.6"
  "ProbeR_predict ProbeR_init x ''EMERGENCY'' = Inr 5"
  "ProbeR_predict ProbeR_init x ''podiatry'' = Inr 2.5"
  by (simp_all add: ProbeR_predict_def ProbeR_init_def risk_get_def lower_def lower_char_def
      SPECIALTY_RISK_MAP_def)

subsection \<open>Feature extraction\<close>

text \<open>
  C6.  On an extractor created with any seed and after any history of earlier calls, the
  vector returned for an entity is the vector of the seed read from the first four bytes
  (big-endian) of the entity's SHA-256 digest; a whole sequence of calls, repeats
  included, returns exactly these vectors.  The cache, the seed of the instance and the
  history have no influence on the result.
\<close>

theorem entity_vector_deterministic:
  "fst (entity_to_vector L (snd (entity_vectors L (extractor_init seed) history)) e)
     = vector_of_seed L (from_bytes_big (take 4 (sha256 L e)))
   \<and> fst (entity_vectors L (extractor_init seed) history)
     = map (\<lambda>e'. vector_of_seed L (from_bytes_big (take 4 (sha256 L e')))) history"
proof -
  have fv: "fresh_vector L e' = vector_of_seed L (from_bytes_big (take 4 (sha256 L e')))" for e'
    by (simp add: fresh_vector_def vector_of_seed_def Let_def)
  have ok: "cache_ok L (snd (entity_vectors L (extractor_init seed) history))"
    using entity_vectors_ok [OF cache_ok_init] by blast
  have a: "fst (entity_to_vector L (snd (entity_vectors L (extractor_init seed) history)) e)
     = fresh_vector L e"
    using ok by (rule entity_to_vector_ok)
  have b: "fst (entity_vectors L (extractor_init seed) history) = map (fresh_vector L) history"
    using entity_vectors_ok [OF cache_ok_init] by blast
  from a b show ?thesis by (simp add: fv)
qed


















lemma probe_outputs_cong:
  "same_probes a b \<Longrightarrow> probe_outputs L a s = probe_outputs L b s"
  unfolding probe_outputs_def same_probes_def by (intro run_probes_cong) simp_all

lemma same_probes_score: "same_probes (snd (score L sys s)) sys"
  using score_probes_unchanged [of L sys s] by (simp add: same_probes_def)

lemma probe_outputs_score:
  "probe_outputs L (snd (score L' sys s)) s' = probe_outputs L sys s'"
  by (rule probe_outputs_cong) (rule same_probes_score)

text \<open>What a batch returns, when it returns: one result per sample, each with the probe
  outputs of its sample.\<close>

lemma score_batch_char:
  assumes "cache_ok L (extractor sys)" and "\<forall>s\<in>set samples. entities s \<noteq> []"
    and "fst (score_batch L sys samples) = Inr rs"
  shows "length rs = length samples
       \<and> (\<forall>i<length samples. \<exists>u r v. probe_outputs L sys (samples ! i) = Inr (u, r, v)
              \<and> qhi (rs ! i) = clip (u * r * v * 5) 0 25)"
  using assms
proof (induction samples arbitrary: sys rs)
  case Nil
  then show ?case by simp
next
  case (Cons s ss)
  let ?sys1 = "snd (score L sys s)"
  from Cons.prems(3) obtain r rs' where
    r: "fst (score L sys s) = Inr r" and rs': "fst (score_batch L ?sys1 ss) = Inr rs'"
    and rs: "rs = r # rs'"
    by (auto split: prod.splits sum.splits)
  have ok1: "cache_ok L (extractor ?sys1)"
    using Cons.prems(1,2) by (simp add: score_cache_ok)
  have ne: "entities s \<noteq> []" and ness: "\<forall>s\<in>set ss. entities s \<noteq> []"
    using Cons.prems(2) by simp_all
  from Cons.IH [OF ok1 ness rs']
  have len: "length rs' = length ss"
    and tl: "\<forall>i<length ss. \<exists>u r v. probe_outputs L ?sys1 (ss ! i) = Inr (u, r, v)
              \<and> qhi (rs' ! i) = clip (u * r * v * 5) 0 25"
    by blast+
  have tl': "\<forall>i<length ss. \<exists>u r v. probe_outputs L sys (ss ! i) = Inr (u, r, v)
              \<and> qhi (rs' ! i) = clip (u * r * v * 5) 0 25"
    using tl by (simp add: probe_outputs_score)
  have hd: "\<exists>u rr v. probe_outputs L sys s = Inr (u, rr, v) \<and> qhi r = clip (u * rr * v * 5) 0 25"
  proof (cases "probe_outputs L sys s")
    case (Inl e)
    with score_char [OF Cons.prems(1) ne] r show ?thesis by simp
  next
    case (Inr t)
    obtain u rr v where t: "t = (u, rr, v)" by (cases t) auto
    with Inr score_char [OF Cons.prems(1) ne] r show ?thesis by auto
  qed
  show ?case
  proof (intro conjI allI impI)
    show "length rs = length (s # ss)" by (simp add: rs len)
  next
    fix i assume "i < length (s # ss)"
    then show "\<exists>u r v. probe_outputs L sys ((s # ss) ! i) = Inr (u, r, v)
              \<and> qhi (rs ! i) = clip (u * r * v * 5) 0 25"
      using hd tl' by (cases i) (auto simp: rs)
  qed
qed

lemma score_batch_returns:
  assumes "cache_ok L (extractor sys)" and "\<forall>s\<in>set samples. entities s \<noteq> []"
    and "\<forall>s\<in>set samples. \<exists>t. probe_outputs L sys s = Inr t"
  shows "\<exists>rs. fst (score_batch L sys samples) = Inr rs"
  using assms
proof (induction samples arbitrary: sys)
  case Nil
  then show ?case by simp
next
  case (Cons s ss)
  let ?sys1 = "snd (score L sys s)"
  have ne: "entities s \<noteq> []" using Cons.prems(2) by simp
  obtain t where t: "probe_outputs L sys s = Inr t" using Cons.prems(3) by auto
  obtain u rr v where "t = (u, rr, v)" by (cases t) auto
  with t score_char [OF Cons.prems(1) ne] obtain r where r: "fst (score L sys s) = Inr r"
    by blast
  have ok1: "cache_ok L (extractor ?sys1)"
    using Cons.prems(1) ne by (simp add: score_cache_ok)
  have "\<forall>s'\<in>set ss. \<exists>t. probe_outputs L ?sys1 s' = Inr t"
    using Cons.prems(3) by (simp add: probe_outputs_score)
  with Cons.IH [OF ok1] Cons.prems(2) obtain rs where "fst (score_batch L ?sys1 ss) = Inr rs"
    by auto
  with r show ?case by (auto split: prod.splits sum.splits)
qed

subsection \<open>Batch scoring\<close>

text \<open>
  C3.  For samples that each have at least one entity, a returned batch has one result
  per sample, in input order, and the \<open>qhi\<close> of the \<open>i\<close>-th result equals (so differs by
  at most \<open>1e-6\<close> from) the \<open>qhi\<close> that \<open>score\<close> returns for the \<open>i\<close>-th sample in any state
  of the same system; and the batch returns whenever each single call does.
\<close>

theorem score_batch_pointwise:
  assumes "cache_ok L (extractor sys)" and "cache_ok L (extractor sys')"
    and "same_probes sys' sys" and "\<forall>s\<in>set samples. entities s \<noteq> []"
  shows "(\<forall>rs. fst (score_batch L sys samples) = Inr rs \<longrightarrow>
            length rs = length samples
            \<and> (\<forall>i<length samples. \<exists>r. fst (score L sys' (samples ! i)) = Inr r
                   \<and> qhi (rs ! i) = qhi r \<and> \<bar>qhi (rs ! i) - qhi r\<bar> \<le> 1 / 10 ^ 6))
       \<and> ((\<forall>i<length samples. \<exists>r. fst (score L sys' (samples ! i)) = Inr r)
            \<longrightarrow> (\<exists>rs. fst (score_batch L sys samples) = Inr rs))"
proof (intro conjI allI impI)
  fix rs assume rs: "fst (score_batch L sys samples) = Inr rs"
  from score_batch_char [OF assms(1,4) rs] show "length rs = length samples" by blast
next
  fix rs i assume rs: "fst (score_batch L sys samples) = Inr rs" and i: "i < length samples"
  from score_batch_char [OF assms(1,4) rs] i obtain u r v where
    po: "probe_outputs L sys (samples ! i) = Inr (u, r, v)"
    and q: "qhi (rs ! i) = clip (u * r * v * 5) 0 25"
    by blast
  have ne: "entities (samples ! i) \<noteq> []" using assms(4) i by simp
  have "probe_outputs L sys' (samples ! i) = Inr (u, r, v)"
    using po probe_outputs_cong [OF assms(3)] by simp
  with score_char [OF assms(2) ne] obtain res where
    "fst (score L sys' (samples ! i)) = Inr res" "qhi res = clip (u * r * v * 5) 0 25"
    by blast
  with q show "\<exists>r. fst (score L sys' (samples ! i)) = Inr r
                   \<and> qhi (rs ! i) = qhi r \<and> \<bar>qhi (rs ! i) - qhi r\<bar> \<le> 1 / 10 ^ 6"
    by auto
next
  assume all: "\<forall>i<length samples. \<exists>r. fst (score L sys' (samples ! i)) = Inr r"
  have "\<forall>s\<in>set samples. \<exists>t. probe_outputs L sys s = Inr t"
  proof
    fix s assume s: "s \<in> set samples"
    then obtain i where i: "i < length samples" "samples ! i = s"
      by (auto simp: in_set_conv_nth)
    with all obtain r where r: "fst (score L sys' s) = Inr r" by auto
    have ne: "entities s \<noteq> []" using assms(4) s by simp
    show "\<exists>t. probe_outputs L sys s = Inr t"
    proof (cases "probe_outputs L sys' s")
      case (Inl e)
      with score_char [OF assms(2) ne] r show ?thesis by simp
    next
      case (Inr t)
      with probe_outputs_cong [OF assms(3), of L s] have "probe_outputs L sys s = Inr t"
        by simp
      then show ?thesis by (rule exI)
    qed
  qed
  with assms(1,4) show "\<exists>rs. fst (score_batch L sys samples) = Inr rs"
    by (rule score_batch_returns)
qed

theorem score_batch_pointwise_witness:
  "\<exists>rs r. fst (score_batch demo_lib (QHIProbeSystem_init None) [demo_sample, demo_sample]) = Inr rs
      \<and> length rs = 2
      \<and> fst (score demo_lib (QHIProbeSystem_init None) demo_sample) = Inr r
      \<and> qhi (rs ! 0) = qhi r \<and> qhi (rs ! 1) = qhi r"
proof -
  let ?sys = "QHIProbeSystem_init None"
  let ?ss = "[demo_sample, demo_sample]"
  obtain r where r: "fst (score demo_lib ?sys demo_sample) = Inr r"
    using demo_score [of demo_lib] by blast
  have nth: "?ss ! i = demo_sample" if "i < length ?ss" for i
    using that by (cases i) auto
  have ne: "\<forall>s\<in>set ?ss. entities s \<noteq> []"
    by (simp add: demo_sample_simps)
  have sp: "same_probes ?sys ?sys"
    by (simp add: same_probes_def)
  note sbp = score_batch_pointwise [OF init_untrained(4) init_untrained(4) sp ne, of demo_lib]
  have "\<forall>i<length ?ss. \<exists>r. fst (score demo_lib ?sys (?ss ! i)) = Inr r"
    using r nth by auto
  with sbp obtain rs where rs: "fst (score_batch demo_lib ?sys ?ss) = Inr rs"
    by blast
  with sbp have len: "length rs = length ?ss"
    and each: "\<forall>i<length ?ss. \<exists>r. fst (score demo_lib ?sys (?ss ! i)) = Inr r
                   \<and> qhi (rs ! i) = qhi r"
    by blast+
  from each [rule_format, of 0] r have q0: "qhi (rs ! 0) = qhi r" by simp
  from each [rule_format, of 1] r have q1: "qhi (rs ! 1) = qhi r" by simp
  from rs len r q0 q1 show ?thesis by auto
qed

lemma ProbeV_inv_init: "ProbeV_inv (ProbeV_init C)"
  by (simp add: ProbeV_inv_def ProbeV_init_def)

lemma ProbeV_train_inv:
  assumes "ProbeV_inv p"
  shows "ProbeV_inv (snd (ProbeV_train L p X y))"
  using assms
  by (auto simp: ProbeV_train_def ProbeV_inv_def Let_def split: sum.splits if_splits)

lemma dot_as_sum:
  assumes "length w = length x"
  shows "sum_list (map2 (*) w x) = (\<Sum>i<length w. w ! i * x ! i)"
proof -
  have "map2 (*) w x = map (\<lambda>i. w ! i * x ! i) [0..<length w]"
    using assms by (intro nth_equalityI) simp_all
  then show ?thesis
    by (simp add: sum_list_sum_nth atLeast0LessThan)
qed

lemma sparse_dot_as_sum:
  "sum_list (map2 (*) (map ((!) w) (np_nonzero w)) (map ((!) x) (np_nonzero w)))
     = (\<Sum>i<length w. w ! i * x ! i)"
proof -
  have "map2 (*) (map ((!) w) (np_nonzero w)) (map ((!) x) (np_nonzero w))
        = map (\<lambda>i. w ! i * x ! i) (filter (\<lambda>i. w ! i \<noteq> 0) [0..<length w])"
    by (simp add: np_nonzero_def zip_map_map zip_same_conv_map)
  also have "sum_list \<dots> = sum_list (map (\<lambda>i. w ! i * x ! i) [0..<length w])"
    by (rule sum_list_map_filter) simp
  also have "\<dots> = (\<Sum>i<length w. w ! i * x ! i)"
    by (simp add: sum_list_sum_nth atLeast0LessThan)
  finally show ?thesis .
qed

lemma np_take_nonzero:
  assumes "length x = length w"
  shows "np_take w (np_nonzero w) = Inr (map ((!) w) (np_nonzero w))"
    and "np_take x (np_nonzero w) = Inr (map ((!) x) (np_nonzero w))"
  using assms by (simp_all add: np_take_def np_nonzero_def list_all_iff)

lemma nonzero_shorter:
  assumes "i < length w" and "w ! i = 0"
  shows "length (np_nonzero w) < length w"
proof -
  have "length (filter (\<lambda>i. w ! i \<noteq> 0) [0..<length w]) < length [0..<length w]"
    by (rule length_filter_less [of i]) (use assms in simp_all)
  then show ?thesis by (simp add: np_nonzero_def)
qed

lemma sigmoid_clipped_dense:
  "sigmoid_clipped ((\<Sum>i<length w. w ! i * x ! i) + b) = dense_predict w b x"
  by (simp add: sigmoid_clipped_def dense_predict_def clip_def max.commute min.commute)

subsection \<open>Sparse inference\<close>

text \<open>
  C7.  For a trained Probe-V (weights \<open>w\<close>, mask the nonzero indices of \<open>w\<close>) with at least
  one zero weight and an input of the weights' length, \<open>predict\<close> takes the sparse path:
  it returns the clipped sigmoid of the dot product restricted to the mask plus the bias,
  and this equals the fully dense computation on the same weights and bias (exactly, so
  to within \<open>1e-5\<close>).
\<close>

theorem sparse_predict_equals_dense:
  assumes "ProbeV_inv p" and "v_trained p" and "v_weights p = Some w"
    and "length x = length w" and "i < length w" and "w ! i = 0"
  shows "length (np_nonzero w) < length x
       \<and> ProbeV_predict p x
           = Inr (sigmoid_clipped
                   (sum_list (map2 (*) (map ((!) w) (np_nonzero w)) (map ((!) x) (np_nonzero w)))
                    + v_bias p))
       \<and> ProbeV_predict p x = Inr (dense_predict w (v_bias p) x)
       \<and> (\<exists>y. ProbeV_predict p x = Inr y \<and> \<bar>y - dense_predict w (v_bias p) x\<bar> \<le> 1 / 10 ^ 5)"
proof -
  have m: "v_nonzero_mask p = Some (np_nonzero w)"
    using assms(1-3) by (auto simp: ProbeV_inv_def)
  have short: "length (np_nonzero w) < length x"
    using nonzero_shorter [OF assms(5,6)] assms(4) by simp
  have len: "length (map ((!) w) (np_nonzero w)) = length (map ((!) x) (np_nonzero w))"
    by simp
  have sparse: "ProbeV_predict p x
           = Inr (sigmoid_clipped
                   (sum_list (map2 (*) (map ((!) w) (np_nonzero w)) (map ((!) x) (np_nonzero w)))
                    + v_bias p))"
    using assms(2,3) m short
    by (simp add: ProbeV_predict_def np_take_nonzero [OF assms(4)] np_dot_def)
  have dense: "ProbeV_predict p x = Inr (dense_predict w (v_bias p) x)"
    unfolding sparse sparse_dot_as_sum sigmoid_clipped_dense ..
  from short sparse dense show ?thesis by simp
qed

lemma dense_path_value:
  assumes "length x = length w"
  shows "(case np_dot w x of Inl e \<Rightarrow> Inl e | Inr d \<Rightarrow> Inr (sigmoid_clipped (d + b)))
         = Inr (dense_predict w b x)"
  using assms by (simp add: np_dot_def dot_as_sum sigmoid_clipped_dense)

lemma demo_ProbeV:
  "v_trained (snd (ProbeV_train demo_lib (ProbeV_init (1 / 2)) [[1, 2, 3], [4, 5, 6]] [0, 1]))"
  "v_weights (snd (ProbeV_train demo_lib (ProbeV_init (1 / 2)) [[1, 2, 3], [4, 5, 6]] [0, 1]))
     = Some [0, 1, 0]"
  "v_bias (snd (ProbeV_train demo_lib (ProbeV_init (1 / 2)) [[1, 2, 3], [4, 5, 6]] [0, 1])) = 0"
  by (simp_all add: ProbeV_train_def demo_lib_def demo_clf_def single_class_def Let_def
      upt_conv_Cons)

theorem sparse_predict_equals_dense_witness:
  "ProbeV_predict (snd (ProbeV_train demo_lib (ProbeV_init (1 / 2)) [[1, 2, 3], [4, 5, 6]] [0, 1]))
     [5, 3, 7]
   = Inr (dense_predict [0, 1, 0] 0 [5, 3, 7])
   \<and> length (np_nonzero [0, 1, 0]) < length [5, 3, 7 :: real]"
proof -
  let ?p = "snd (ProbeV_train demo_lib (ProbeV_init (1 / 2)) [[1, 2, 3], [4, 5, 6]] [0, 1])"
  have inv: "ProbeV_inv ?p"
    by (rule ProbeV_train_inv) (rule ProbeV_inv_init)
  have len: "length [5, 3, 7 :: real] = length [0, 1, 0 :: real]" by simp
  have i: "0 < length [0, 1, 0 :: real]" by simp
  have z: "[0, 1, 0 :: real] ! 0 = 0" by simp
  from sparse_predict_equals_dense [OF inv demo_ProbeV(1) demo_ProbeV(2) len i z]
  have a: "length (np_nonzero [0, 1, 0]) < length [5, 3, 7 :: real]"
    and b: "ProbeV_predict ?p [5, 3, 7] = Inr (dense_predict [0, 1, 0] (v_bias ?p) [5, 3, 7])"
    by blast+
  from b have "ProbeV_predict ?p [5, 3, 7] = Inr (dense_predict [0, 1, 0] 0 [5, 3, 7])"
    by (simp only: demo_ProbeV(3))
  with a show ?thesis by blast
qed

subsection \<open>Training\<close>

lemma str_of_nat_examples:
  "str_of_nat 0 = ''0''" "str_of_nat 9 = ''9''" "str_of_nat 1 = ''1''"
  by simp_all

lemma ProbeC_train_fit_error:
  assumes "LogisticRegression_fit L
             \<lparr>lr_C = c_C p, lr_l1_ratio = 0, lr_solver = ''lbfgs'',
              lr_max_iter = 1000, lr_random_state = 42\<rparr> X y = Inl e"
  shows "ProbeC_train L p X y = (Inl e, p)"
  using assms by (simp add: ProbeC_train_def)

lemma ProbeC_train_auc_fallback:
  assumes "LogisticRegression_fit L
             \<lparr>lr_C = c_C p, lr_l1_ratio = 0, lr_solver = ''lbfgs'',
              lr_max_iter = 1000, lr_random_state = 42\<rparr> X y = Inr clf"
    and "roc_auc_score L y (predict_proba1 clf X) = Inl (ValueError m)"
  shows "fst (ProbeC_train L p X y) = Inr \<lparr>c_auc_roc = 1 / 2, c_accuracy = lr_score clf X y\<rparr>"
  using assms by (simp add: ProbeC_train_def Let_def)

text \<open>
  C4.  Specified: on single-class labels Probe-U's \<open>train\<close> does not raise and reports
  \<open>auc_roc = 0.5\<close>.  The code guards \<^verbatim>\<open>roc_auc_score\<close> only; \<^verbatim>\<open>clf.fit\<close> runs before the
  \<^verbatim>\<open>try\<close>, and whatever it raises leaves \<open>train\<close> (\<open>ProbeC_train_fit_error\<close>).  With a
  library that, like scikit-learn, refuses to fit labels of one class, training on the
  features of three samples all labelled 1 ends in that \<open>ValueError\<close>, and the probe is
  returned as it was, untrained.
\<close>

theorem ProbeC_train_single_class:
  "ProbeC_train demo_lib (ProbeC_init 1)
     (map (pooled_features demo_lib) [demo_sample, demo_sample, demo_sample]) [1, 1, 1]
   = (Inl (ValueError ''This solver needs samples of at least 2 classes''), ProbeC_init 1)"
  by (rule ProbeC_train_fit_error) (simp add: demo_lib_def single_class_def)

lemma extract_batch_ok:
  assumes "cache_ok L ex" and "\<forall>s\<in>set samples. entities s \<noteq> []"
  shows "fst (extract_batch L ex samples) = Inr (map (pooled_features L) samples)
       \<and> cache_ok L (snd (extract_batch L ex samples))"
  using assms
proof (induction samples arbitrary: ex)
  case Nil
  then show ?case by simp
next
  case (Cons s ss)
  have ne: "entities s \<noteq> []" using Cons.prems(2) by simp
  have x: "fst (extract_sample L ex s) = Inr (pooled_features L s)"
    and ok1: "cache_ok L (snd (extract_sample L ex s))"
    using extract_sample_ok [OF Cons.prems(1) ne] by blast+
  from Cons.IH [OF ok1] Cons.prems(2)
  have "fst (extract_batch L (snd (extract_sample L ex s)) ss) = Inr (map (pooled_features L) ss)"
    and "cache_ok L (snd (extract_batch L (snd (extract_sample L ex s)) ss))"
    by simp_all
  with x show ?case
    by (auto split: prod.splits sum.splits)
qed

lemma train_too_few:
  assumes "length samples < 10"
  shows "train L sys samples =
         (Inl (ValueError (''Need at least 10 samples, got '' @ str_of_nat (length samples))), sys)"
  using assms by (simp add: train_def)

lemma train_succeeds:
  assumes "10 \<le> length samples" and "cache_ok L (extractor sys)"
    and "\<forall>s\<in>set samples. entities s \<noteq> []" and "learners_accept L sys samples"
  shows "\<exists>m sys'. train L sys samples = (Inr m, sys') \<and> trained sys'
           \<and> training_metrics sys' = Some m \<and> n_train m = length samples"
proof -
  let ?X = "map (pooled_features L) samples"
  let ?ext = "extract_batch L (extractor sys) samples"
  have X: "fst ?ext = Inr ?X"
    using extract_batch_ok [OF assms(2,3)] by blast
  from assms(4) obtain mc mr mv where
    c: "fst (ProbeC_train L (probe_c sys) ?X (map true_label samples)) = Inr mc"
    and r: "fst (ProbeR_train L (probe_r sys) ?X
                 (map (\<lambda>a. clip (a / 5) 1 5) (map true_severity samples))) = Inr mr"
    and v: "fst (ProbeV_train L (probe_v sys) ?X
                 (map (\<lambda>a. if a > 10 then 1 else 0) (map true_severity samples))) = Inr mv"
    unfolding learners_accept_def Let_def
    by (metis sum.collapse(2))
  show ?thesis
    using assms(1) X c r v by (simp add: train_def Let_def)
qed

text \<open>Ten samples that each have an entity and whose features and labels the three
  learners accept are trained on.\<close>

lemma train_ten_accepted:
  "(length samples < 10 \<longrightarrow>
      train L sys samples =
        (Inl (ValueError (''Need at least 10 samples, got '' @ str_of_nat (length samples))), sys))
   \<and> (length samples = 10 \<and> cache_ok L (extractor sys)
        \<and> (\<forall>s\<in>set samples. entities s \<noteq> []) \<and> learners_accept L sys samples \<longrightarrow>
      (\<exists>m sys'. train L sys samples = (Inr m, sys') \<and> trained sys'
          \<and> training_metrics sys' = Some m \<and> n_train m = 10))"
proof (intro conjI impI)
  assume "length samples < 10"
  then show "train L sys samples =
        (Inl (ValueError (''Need at least 10 samples, got '' @ str_of_nat (length samples))), sys)"
    by (rule train_too_few)
next
  assume a: "length samples = 10 \<and> cache_ok L (extractor sys)
        \<and> (\<forall>s\<in>set samples. entities s \<noteq> []) \<and> learners_accept L sys samples"
  then have "10 \<le> length samples" by simp
  from train_succeeds [OF this] a
  show "\<exists>m sys'. train L sys samples = (Inr m, sys') \<and> trained sys'
          \<and> training_metrics sys' = Some m \<and> n_train m = 10"
    by auto
qed

lemma demo_samples_simps:
  "length demo_samples = 10"
  "\<forall>s\<in>set demo_samples. entities s \<noteq> []"
  "map true_label demo_samples = [1, 0, 1, 0, 1, 0, 1, 0, 1, 0]"
  "map true_severity demo_samples = [24, 0, 24, 0, 24, 0, 24, 0, 24, 0]"
  by (simp_all add: demo_samples_def demo_sample_def demo_clean_def)

lemma demo_learners_accept: "learners_accept demo_lib (QHIProbeSystem_init None) demo_samples"
proof -
  let ?X = "map (pooled_features demo_lib) demo_samples"
  have c: "\<not> isl (fst (ProbeC_train demo_lib pc ?X [1, 0, 1, 0, 1, 0, 1, 0, 1, 0]))" for pc
    by (simp add: ProbeC_train_def demo_lib_def single_class_def Let_def)
  have r: "\<not> isl (fst (ProbeR_train demo_lib pr ?X yr))" for pr yr
    by (simp add: ProbeR_train_def demo_lib_def Let_def)
  have X: "?X = pooled_features demo_lib demo_sample # tl ?X"
    by (simp add: demo_samples_def)
  have w: "length (coef0 (demo_clf ?X)) \<noteq> 0"
    by (subst X) (simp add: demo_clf_def length_pooled_features)
  have v: "\<not> isl (fst (ProbeV_train demo_lib pv ?X [1, 0, 1, 0, 1, 0, 1, 0, 1, 0]))" for pv
    using w by (simp add: ProbeV_train_def demo_lib_def single_class_def Let_def)
  show ?thesis
    unfolding learners_accept_def Let_def demo_samples_simps
    using c r v by simp
qed

lemma train_ten_accepted_example:
  "train demo_lib (QHIProbeSystem_init None) [demo_sample, demo_clean]
     = (Inl (ValueError ''Need at least 10 samples, got 2''), QHIProbeSystem_init None)
   \<and> (\<exists>m sys'. train demo_lib (QHIProbeSystem_init None) demo_samples = (Inr m, sys')
          \<and> trained sys' \<and> training_metrics sys' = Some m \<and> n_train m = 10)"
proof -
  have few: "length [demo_sample, demo_clean] < 10" by simp
  from train_ten_accepted [of "[demo_sample, demo_clean]" demo_lib "QHIProbeSystem_init None"] few
  have a: "train demo_lib (QHIProbeSystem_init None) [demo_sample, demo_clean]
     = (Inl (ValueError ''Need at least 10 samples, got 2''), QHIProbeSystem_init None)"
    by simp
  from train_ten_accepted [of demo_samples demo_lib "QHIProbeSystem_init None"]
    demo_samples_simps(1,2) demo_learners_accept init_untrained(4) [of demo_lib None]
  have b: "\<exists>m sys'. train demo_lib (QHIProbeSystem_init None) demo_samples = (Inr m, sys')
          \<and> trained sys' \<and> training_metrics sys' = Some m \<and> n_train m = 10"
    by blast
  from a b show ?thesis by blast
qed

lemma ProbeV_train_fit_error:
  assumes "LogisticRegression_fit L
             \<lparr>lr_C = v_C p, lr_l1_ratio = 1, lr_solver = ''saga'',
              lr_max_iter = 1000, lr_random_state = 42\<rparr> X y = Inl e"
  shows "ProbeV_train L p X y = (Inl e, p)"
  using assms by (simp add: ProbeV_train_def)

lemma demo_low_severity_simps:
  "length demo_low_severity = 10"
  "\<forall>s\<in>set demo_low_severity. entities s \<noteq> []"
  "map true_label demo_low_severity = [1, 0, 1, 0, 1, 0, 1, 0, 1, 0]"
  "map true_severity demo_low_severity = [8, 0, 8, 0, 8, 0, 8, 0, 8, 0]"
  by (simp_all add: demo_low_severity_def demo_samples_def demo_sample_def demo_clean_def)

lemma demo_all_correct_simps:
  "length demo_all_correct = 10"
  "\<forall>s\<in>set demo_all_correct. entities s \<noteq> []"
  "map true_label demo_all_correct = [0, 0, 0, 0, 0, 0, 0, 0, 0, 0]"
  by (simp_all add: demo_all_correct_def demo_samples_def demo_sample_def demo_clean_def)

lemma demo_ProbeC_train_mixed:
  "fst (ProbeC_train demo_lib p X [1, 0, 1, 0, 1, 0, 1, 0, 1, 0])
     = Inr \<lparr>c_auc_roc = 1 / 2, c_accuracy = 1\<rparr>"
  "c_trained (snd (ProbeC_train demo_lib p X [1, 0, 1, 0, 1, 0, 1, 0, 1, 0]))"
  by (simp_all add: ProbeC_train_def demo_lib_def single_class_def Let_def demo_clf_def)

lemma demo_ProbeR_train:
  "\<exists>m. fst (ProbeR_train demo_lib p X y) = Inr m"
  "r_trained (snd (ProbeR_train demo_lib p X y))"
  by (simp_all add: ProbeR_train_def demo_lib_def Let_def)

lemma demo_ProbeV_train_zeros:
  "ProbeV_train demo_lib p X [0, 0, 0, 0, 0, 0, 0, 0, 0, 0]
     = (Inl (ValueError ''This solver needs samples of at least 2 classes''), p)"
  by (rule ProbeV_train_fit_error) (simp add: demo_lib_def single_class_def)

lemma demo_ProbeC_train_zeros:
  "ProbeC_train demo_lib p X [0, 0, 0, 0, 0, 0, 0, 0, 0, 0]
     = (Inl (ValueError ''This solver needs samples of at least 2 classes''), p)"
  by (rule ProbeC_train_fit_error) (simp add: demo_lib_def single_class_def)

text \<open>
  C5.  Specified: \<open>train\<close> fails on fewer than ten samples, naming the minimum and the
  count, and succeeds on exactly ten.  The first half holds (\<open>train_too_few\<close>).  The second
  does not: ten samples pass the count check, but \<^verbatim>\<open>clf.fit\<close> is called outside the
  \<^verbatim>\<open>try\<close> in \<^verbatim>\<open>_ProbeC.train\<close> and \<^verbatim>\<open>_ProbeV.train\<close>, so with a library that, like
  scikit-learn, refuses labels of one class, \<open>train\<close> raises.  On ten samples with both
  labels but every severity at most 10 the violation labels are all 0: Probe-V's fit
  raises after Probe-U and Probe-R were trained, and the system is left half trained.
  On ten samples all labelled correct Probe-U's fit raises at once.
\<close>

theorem train_ten_samples_raises:
  "length demo_low_severity = 10
   \<and> fst (train demo_lib (QHIProbeSystem_init None) demo_low_severity)
       = Inl (ValueError ''This solver needs samples of at least 2 classes'')
   \<and> \<not> trained (snd (train demo_lib (QHIProbeSystem_init None) demo_low_severity))
   \<and> c_trained (probe_c (snd (train demo_lib (QHIProbeSystem_init None) demo_low_severity)))
   \<and> r_trained (probe_r (snd (train demo_lib (QHIProbeSystem_init None) demo_low_severity)))
   \<and> \<not> v_trained (probe_v (snd (train demo_lib (QHIProbeSystem_init None) demo_low_severity)))
   \<and> length demo_all_correct = 10
   \<and> fst (train demo_lib (QHIProbeSystem_init None) demo_all_correct)
       = Inl (ValueError ''This solver needs samples of at least 2 classes'')
   \<and> \<not> trained (snd (train demo_lib (QHIProbeSystem_init None) demo_all_correct))"
proof -
  let ?sys = "QHIProbeSystem_init None"
  have len1: "\<not> length demo_low_severity < 10" by (simp add: demo_low_severity_simps)
  have len2: "\<not> length demo_all_correct < 10" by (simp add: demo_all_correct_simps)
  have X1: "fst (extract_batch demo_lib (extractor ?sys) demo_low_severity)
           = Inr (map (pooled_features demo_lib) demo_low_severity)"
    using extract_batch_ok [OF init_untrained(4) demo_low_severity_simps(2)] by blast
  have X2: "fst (extract_batch demo_lib (extractor ?sys) demo_all_correct)
           = Inr (map (pooled_features demo_lib) demo_all_correct)"
    using extract_batch_ok [OF init_untrained(4) demo_all_correct_simps(2)] by blast
  have yv: "map (\<lambda>a. if 10 < a then 1 else (0::int)) [8, 0, 8, 0, 8, 0, 8, 0, 8, 0 :: real]
            = [0, 0, 0, 0, 0, 0, 0, 0, 0, 0]"
    by simp
  obtain mr where mr: "\<And>p X y. fst (ProbeR_train demo_lib p X y) = Inr (mr p X y)"
    using demo_ProbeR_train(1) by metis
  have untr: "\<not> trained ?sys" "\<not> v_trained (probe_v ?sys)"
    by (simp_all add: QHIProbeSystem_init_def Let_def ProbeV_init_def)
  have low: "fst (train demo_lib ?sys demo_low_severity)
       = Inl (ValueError ''This solver needs samples of at least 2 classes'')
     \<and> \<not> trained (snd (train demo_lib ?sys demo_low_severity))
     \<and> c_trained (probe_c (snd (train demo_lib ?sys demo_low_severity)))
     \<and> r_trained (probe_r (snd (train demo_lib ?sys demo_low_severity)))
     \<and> \<not> v_trained (probe_v (snd (train demo_lib ?sys demo_low_severity)))"
    using len1 untr
    by (simp add: train_def Let_def X1 demo_low_severity_simps(3,4) yv
        demo_ProbeC_train_mixed mr demo_ProbeR_train(2) demo_ProbeV_train_zeros)
  have cor: "fst (train demo_lib ?sys demo_all_correct)
       = Inl (ValueError ''This solver needs samples of at least 2 classes'')
     \<and> \<not> trained (snd (train demo_lib ?sys demo_all_correct))"
    using len2 untr
    by (simp add: train_def Let_def X2 demo_all_correct_simps(3) demo_ProbeC_train_zeros)
  from low cor demo_low_severity_simps(1) demo_all_correct_simps(1) show ?thesis by blast
qed

lemma train_all_hallucinated_raises:
  "fst (train demo_lib (QHIProbeSystem_init None)
          (map (\<lambda>s. s\<lparr>true_label := 1\<rparr>) demo_samples))
   = Inl (ValueError ''This solver needs samples of at least 2 classes'')"
proof -
  let ?ss = "map (\<lambda>s. s\<lparr>true_label := 1\<rparr>) demo_samples"
  have ne: "\<forall>s\<in>set ?ss. entities s \<noteq> []"
    by (simp add: demo_samples_def demo_sample_def demo_clean_def)
  have X: "fst (extract_batch demo_lib (extractor (QHIProbeSystem_init None)) ?ss)
           = Inr (map (pooled_features demo_lib) ?ss)"
    using extract_batch_ok [OF init_untrained(4) ne] by blast
  have y: "map true_label ?ss = [1, 1, 1, 1, 1, 1, 1, 1, 1, 1]"
    by (simp add: demo_samples_def)
  have len: "\<not> length ?ss < 10" by (simp add: demo_samples_def)
  have c: "ProbeC_train demo_lib pc Xm [1, 1, 1, 1, 1, 1, 1, 1, 1, 1]
       = (Inl (ValueError ''This solver needs samples of at least 2 classes''), pc)" for pc Xm
    by (rule ProbeC_train_fit_error) (simp add: demo_lib_def single_class_def)
  show ?thesis
    unfolding train_def Let_def using len by (simp only: X y c if_False sum.case fst_conv)
qed

subsection \<open>Benchmark on an empty test set\<close>

lemma gate_distribution_nonempty:
  assumes "gates \<noteq> []"
  shows "\<not> isl (gate_distribution gates)"
  using assms by (simp add: gate_distribution_def py_truediv_def)



end
